theory Spec2Isabelle
  imports Complex_Main
begin

section \<open>Python values handled by the filters\<close>

text \<open>
  The filters of \<^verbatim>\<open>filters.py\<close> compare an attribute of a close approach with a
  reference value through a comparator of Python's \<^verbatim>\<open>operator\<close> module. The
  attributes and the reference values are dates, floats, booleans and \<^verbatim>\<open>None\<close>.

  A Python float is either a finite number, an infinity or not-a-number. Comparing two
  finite floats is exact, so a finite float is represented by the real number it denotes
  (\<^verbatim>\<open>-0.0\<close> and \<^verbatim>\<open>0.0\<close> compare equal in Python and both denote \<open>0\<close>).
\<close>

datatype pyfloat = Finite real | PosInf | NegInf | NaN

fun float_eq :: "pyfloat \<Rightarrow> pyfloat \<Rightarrow> bool" where
  "float_eq (Finite x) (Finite y) = (x = y)"
| "float_eq PosInf PosInf = True"
| "float_eq NegInf NegInf = True"
| "float_eq _ _ = False"

fun float_lt :: "pyfloat \<Rightarrow> pyfloat \<Rightarrow> bool" where
  "float_lt NaN _ = False"
| "float_lt _ NaN = False"
| "float_lt (Finite x) (Finite y) = (x < y)"
| "float_lt NegInf NegInf = False"
| "float_lt NegInf _ = True"
| "float_lt _ NegInf = False"
| "float_lt PosInf _ = False"
| "float_lt _ PosInf = True"

definition float_le :: "pyfloat \<Rightarrow> pyfloat \<Rightarrow> bool" where
  "float_le a b = (float_lt a b \<or> float_eq a b)"

text \<open>
  \<^verbatim>\<open>datetime.date\<close> holds a year, a month and a day and is ordered by them in that
  order; \<^verbatim>\<open>datetime.datetime\<close> is its subclass and adds the time of day.
\<close>

record date =
  year :: int
  month :: int
  day :: int

record datetime = date +
  hour :: int
  minute :: int
  second :: int
  microsecond :: int

definition date_of :: "datetime \<Rightarrow> date" where
  \<comment> \<open>\<^verbatim>\<open>datetime.date()\<close>\<close>
  "date_of t = \<lparr>year = year t, month = month t, day = day t\<rparr>"

definition date_lt :: "date \<Rightarrow> date \<Rightarrow> bool" where
  "date_lt d e =
     (year d < year e \<or> (year d = year e \<and>
       (month d < month e \<or> (month d = month e \<and> day d < day e))))"

definition date_le :: "date \<Rightarrow> date \<Rightarrow> bool" where
  "date_le d e = (date_lt d e \<or> d = e)"

datatype pyval = PyNone | PyBool bool | PyInt int | PyFloat pyfloat | PyDate date

datatype error = UnsupportedCriterionError | TypeError

text \<open>
  Booleans and integers compare with floats by their numeric value; \<^verbatim>\<open>None\<close> and dates
  are no numbers.
\<close>

fun as_number :: "pyval \<Rightarrow> pyfloat option" where
  "as_number (PyBool b) = Some (Finite (if b then 1 else 0))"
| "as_number (PyInt i) = Some (Finite (of_int i))"
| "as_number (PyFloat x) = Some x"
| "as_number _ = None"

text \<open>\<^verbatim>\<open>a == b\<close> never raises: values of unrelated types are unequal.\<close>

definition py_eq :: "pyval \<Rightarrow> pyval \<Rightarrow> bool" where
  "py_eq a b =
     (case (as_number a, as_number b) of
        (Some x, Some y) \<Rightarrow> float_eq x y
      | _ \<Rightarrow> (case (a, b) of
                (PyNone, PyNone) \<Rightarrow> True
              | (PyDate d, PyDate e) \<Rightarrow> d = e
              | _ \<Rightarrow> False))"

text \<open>
  \<^verbatim>\<open>a < b\<close> and \<^verbatim>\<open>a <= b\<close> are defined between two numbers and between two dates; for
  any other pair of these values Python raises \<^verbatim>\<open>TypeError\<close>.
\<close>

definition py_lt :: "pyval \<Rightarrow> pyval \<Rightarrow> error + bool" where
  "py_lt a b =
     (case (as_number a, as_number b) of
        (Some x, Some y) \<Rightarrow> Inr (float_lt x y)
      | _ \<Rightarrow> (case (a, b) of
                (PyDate d, PyDate e) \<Rightarrow> Inr (date_lt d e)
              | _ \<Rightarrow> Inl TypeError))"

definition py_le :: "pyval \<Rightarrow> pyval \<Rightarrow> error + bool" where
  "py_le a b =
     (case (as_number a, as_number b) of
        (Some x, Some y) \<Rightarrow> Inr (float_le x y)
      | _ \<Rightarrow> (case (a, b) of
                (PyDate d, PyDate e) \<Rightarrow> Inr (date_le d e)
              | _ \<Rightarrow> Inl TypeError))"

text \<open>The comparators of the \<^verbatim>\<open>operator\<close> module.\<close>

datatype comparator =
  operator_lt | operator_le | operator_eq | operator_ne | operator_ge | operator_gt

fun apply_op :: "comparator \<Rightarrow> pyval \<Rightarrow> pyval \<Rightarrow> error + bool" where
  "apply_op operator_lt a b = py_lt a b"
| "apply_op operator_le a b = py_le a b"
| "apply_op operator_eq a b = Inr (py_eq a b)"
| "apply_op operator_ne a b = Inr (\<not> py_eq a b)"
| "apply_op operator_ge a b = py_le b a"
| "apply_op operator_gt a b = py_lt b a"

section \<open>Near-Earth objects and close approaches\<close>

text \<open>
  Modelled from the spec: the classes \<^verbatim>\<open>NearEarthObject\<close> and \<^verbatim>\<open>CloseApproach\<close> of the
  module \<^verbatim>\<open>models\<close>, which \<^verbatim>\<open>extract.py\<close> imports. The records have the attributes that
  \<^verbatim>\<open>filters.py\<close> and \<^verbatim>\<open>write.py\<close> read. The name and the diameter are optional: both
  writers test them with \<^verbatim>\<open>is not None\<close>, and \<^verbatim>\<open>DiameterFilter.get\<close> documents its result
  as a float or \<^verbatim>\<open>None\<close> if unknown. A diameter that is present is a float and may be
  not-a-number.
\<close>

record near_earth_object =
  designation :: string
  name :: "string option"
  diameter :: "pyfloat option"
  hazardous :: bool

record close_approach =
  time :: datetime
  distance :: pyfloat
  velocity :: pyfloat
  neo :: near_earth_object

text \<open>
  Modelled from the spec: the value that \<^verbatim>\<open>models\<close> stores as the diameter of an object
  whose diameter is unknown. The specification names it: a floating-point not-a-number
  sentinel, which is then compared like any other float.
\<close>

definition unknown_diameter :: "pyfloat option" where
  "unknown_diameter = Some NaN"

section \<open>Attribute filters\<close>

text \<open>
  An object of \<^verbatim>\<open>AttributeFilter\<close> or of one of its five subclasses holds a comparator
  and a reference value; its class decides what \<^verbatim>\<open>get\<close> does.
\<close>

datatype attribute_filter =
    AttributeFilter comparator pyval
  | DateFilter comparator pyval
  | DistanceFilter comparator pyval
  | VelocityFilter comparator pyval
  | DiameterFilter comparator pyval
  | HazardousFilter comparator pyval

fun filter_op :: "attribute_filter \<Rightarrow> comparator" where
  "filter_op (AttributeFilter c v) = c"
| "filter_op (DateFilter c v) = c"
| "filter_op (DistanceFilter c v) = c"
| "filter_op (VelocityFilter c v) = c"
| "filter_op (DiameterFilter c v) = c"
| "filter_op (HazardousFilter c v) = c"

fun filter_value :: "attribute_filter \<Rightarrow> pyval" where
  "filter_value (AttributeFilter c v) = v"
| "filter_value (DateFilter c v) = v"
| "filter_value (DistanceFilter c v) = v"
| "filter_value (VelocityFilter c v) = v"
| "filter_value (DiameterFilter c v) = v"
| "filter_value (HazardousFilter c v) = v"

fun get :: "attribute_filter \<Rightarrow> close_approach \<Rightarrow> error + pyval" where
  "get (AttributeFilter c v) approach = Inl UnsupportedCriterionError"
| "get (DateFilter c v) approach = Inr (PyDate (date_of (time approach)))"
| "get (DistanceFilter c v) approach = Inr (PyFloat (distance approach))"
| "get (VelocityFilter c v) approach = Inr (PyFloat (velocity approach))"
| "get (DiameterFilter c v) approach =
     Inr (case diameter (neo approach) of None \<Rightarrow> PyNone | Some d \<Rightarrow> PyFloat d)"
| "get (HazardousFilter c v) approach = Inr (PyBool (hazardous (neo approach)))"

definition call :: "attribute_filter \<Rightarrow> close_approach \<Rightarrow> error + bool" where
  \<comment> \<open>\<^verbatim>\<open>__call__\<close>: the operands are evaluated first, so an error of \<^verbatim>\<open>get\<close> is raised
      before the comparator is applied.\<close>
  "call f approach =
     (case get f approach of
        Inl e \<Rightarrow> Inl e
      | Inr x \<Rightarrow> apply_op (filter_op f) x (filter_value f))"

definition create_filters ::
  "pyval \<Rightarrow> pyval \<Rightarrow> pyval \<Rightarrow> pyval \<Rightarrow> pyval \<Rightarrow> pyval \<Rightarrow> pyval \<Rightarrow> pyval \<Rightarrow> pyval \<Rightarrow> pyval
     \<Rightarrow> attribute_filter list" where
  "create_filters =
     (\<lambda>date start_date end_date distance_min distance_max
       velocity_min velocity_max diameter_min diameter_max hazardous.
      let command_filters = [];
          command_filters = (if date \<noteq> PyNone
            then command_filters @ [DateFilter operator_eq date] else command_filters);
          command_filters = (if start_date \<noteq> PyNone
            then command_filters @ [DateFilter operator_ge start_date] else command_filters);
          command_filters = (if end_date \<noteq> PyNone
            then command_filters @ [DateFilter operator_le end_date] else command_filters);
          command_filters = (if distance_min \<noteq> PyNone
            then command_filters @ [DistanceFilter operator_ge distance_min]
            else command_filters);
          command_filters = (if distance_max \<noteq> PyNone
            then command_filters @ [DistanceFilter operator_le distance_max]
            else command_filters);
          command_filters = (if velocity_min \<noteq> PyNone
            then command_filters @ [VelocityFilter operator_ge velocity_min]
            else command_filters);
          command_filters = (if velocity_max \<noteq> PyNone
            then command_filters @ [VelocityFilter operator_le velocity_max]
            else command_filters);
          command_filters = (if diameter_min \<noteq> PyNone
            then command_filters @ [DiameterFilter operator_ge diameter_min]
            else command_filters);
          command_filters = (if diameter_max \<noteq> PyNone
            then command_filters @ [DiameterFilter operator_le diameter_max]
            else command_filters);
          command_filters = (if hazardous \<noteq> PyNone
            then command_filters @ [HazardousFilter operator_eq hazardous]
            else command_filters)
      in command_filters)"

section \<open>The query of the database\<close>

text \<open>
  Modelled from the spec: the method \<^verbatim>\<open>query\<close> of the database module, which is not among
  the sources. It goes through the close approaches in their stored order and produces
  those for which all filters evaluate true (a logical AND, which ends at the first filter
  that is false; an empty collection of filters matches everything). A filter that raises
  ends the query with its error. The filters themselves are those of
  \<^verbatim>\<open>filters.py\<close>.
\<close>

fun matches :: "attribute_filter list \<Rightarrow> close_approach \<Rightarrow> error + bool" where
  "matches [] approach = Inr True"
| "matches (f # fs) approach =
     (case call f approach of
        Inl e \<Rightarrow> Inl e
      | Inr b \<Rightarrow> if b then matches fs approach else Inr False)"

fun query :: "close_approach list \<Rightarrow> attribute_filter list \<Rightarrow> error + close_approach list" where
  "query [] filters = Inr []"
| "query (approach # approaches) filters =
     (case matches filters approach of
        Inl e \<Rightarrow> Inl e
      | Inr b \<Rightarrow>
          (case query approaches filters of
             Inl e \<Rightarrow> Inl e
           | Inr rest \<Rightarrow> Inr (if b then approach # rest else rest)))"

section \<open>Iterators and the generator \<^verbatim>\<open>limit\<close>\<close>

text \<open>
  A Python iterator is an object with a state and a method \<^verbatim>\<open>__next__\<close> that either
  returns an item and moves the state on, or raises \<^verbatim>\<open>StopIteration\<close>. Here the method is
  a function from the state to \<open>Some (item, next state)\<close> or \<open>None\<close>; the state may be
  of any type, so an iterator need not end.
\<close>

type_synonym ('a, 's) iterator = "'s \<Rightarrow> ('a \<times> 's) option"

definition list_next :: "('a, 'a list) iterator" where
  \<comment> \<open>the iterator of a finite sequence: the state is what remains of it\<close>
  "list_next xs = (case xs of [] \<Rightarrow> None | x # rest \<Rightarrow> Some (x, rest))"

definition count_next :: "(int, int) iterator" where
  \<comment> \<open>\<^verbatim>\<open>itertools.count\<close>: an iterator that never ends\<close>
  "count_next c = Some (c, c + 1)"

text \<open>
  Calling \<^verbatim>\<open>limit(iterator, n)\<close> creates a generator and runs none of its body. The
  generator is suspended either before its first statement, or at the \<^verbatim>\<open>yield from\<close>, or
  at the \<^verbatim>\<open>yield\<close> in the loop (where \<^verbatim>\<open>enumerate\<close> will number the next item \<open>i\<close>), or it
  has returned. Besides the state of the source iterator the model records how many
  times the generator has called \<^verbatim>\<open>__next__\<close> of the source.
\<close>

datatype position = Created "int option" | Delegating | Enumerating int int | Returned

record 's generator =
  position :: position
  source :: 's
  pulls :: nat

definition limit :: "'s \<Rightarrow> int option \<Rightarrow> 's generator" where
  "limit iterator n = \<lparr>position = Created n, source = iterator, pulls = 0\<rparr>"

definition delegate :: "('a, 's) iterator \<Rightarrow> 's generator \<Rightarrow> 'a option \<times> 's generator" where
  \<comment> \<open>one step of \<^verbatim>\<open>yield from iterator\<close>\<close>
  "delegate nxt g =
     (case nxt (source g) of
        None \<Rightarrow> (None, g\<lparr>position := Returned, pulls := pulls g + 1\<rparr>)
      | Some (v, s) \<Rightarrow>
          (Some v, g\<lparr>position := Delegating, source := s, pulls := pulls g + 1\<rparr>))"

definition iterate ::
  "('a, 's) iterator \<Rightarrow> int \<Rightarrow> int \<Rightarrow> 's generator \<Rightarrow> 'a option \<times> 's generator" where
  \<comment> \<open>one turn of \<^verbatim>\<open>for i, value in enumerate(iterator)\<close>: the item is taken from the
      source first, then \<open>i\<close> is compared with \<open>n\<close>\<close>
  "iterate nxt i n g =
     (case nxt (source g) of
        None \<Rightarrow> (None, g\<lparr>position := Returned, pulls := pulls g + 1\<rparr>)
      | Some (v, s) \<Rightarrow>
          if i \<ge> n
          then (None, g\<lparr>position := Returned, source := s, pulls := pulls g + 1\<rparr>)
          else (Some v,
                g\<lparr>position := Enumerating (i + 1) n, source := s, pulls := pulls g + 1\<rparr>))"

definition limit_next :: "('a, 's) iterator \<Rightarrow> 's generator \<Rightarrow> 'a option \<times> 's generator" where
  \<comment> \<open>\<^verbatim>\<open>__next__\<close> of the generator: \<open>None\<close> is \<^verbatim>\<open>StopIteration\<close>\<close>
  "limit_next nxt g =
     (case position g of
        Created n \<Rightarrow>
          if n = None \<or> n = Some 0 then delegate nxt g
          else (case n of None \<Rightarrow> delegate nxt g | Some k \<Rightarrow> iterate nxt 0 k g)
      | Delegating \<Rightarrow> delegate nxt g
      | Enumerating i n \<Rightarrow> iterate nxt i n g
      | Returned \<Rightarrow> (None, g))"

text \<open>
  Two consumers. \<open>next_n\<close> asks the generator for up to \<open>k\<close> items and stops at the first
  \<^verbatim>\<open>StopIteration\<close>. \<open>drain\<close> is a \<^verbatim>\<open>for\<close> loop or \<^verbatim>\<open>list(...)\<close>: it asks until
  \<^verbatim>\<open>StopIteration\<close>; the fuel bounds the number of calls, and \<open>None\<close> means that the
  generator had not ended when the fuel ran out.
\<close>

fun next_n :: "('a, 's) iterator \<Rightarrow> nat \<Rightarrow> 's generator \<Rightarrow> 'a list \<times> 's generator" where
  "next_n nxt 0 g = ([], g)"
| "next_n nxt (Suc k) g =
     (case limit_next nxt g of
        (None, g') \<Rightarrow> ([], g')
      | (Some v, g') \<Rightarrow> (case next_n nxt k g' of (vs, g'') \<Rightarrow> (v # vs, g'')))"

fun drain :: "('a, 's) iterator \<Rightarrow> nat \<Rightarrow> 's generator \<Rightarrow> ('a list \<times> 's generator) option" where
  "drain nxt 0 g = None"
| "drain nxt (Suc fuel) g =
     (case limit_next nxt g of
        (None, g') \<Rightarrow> Some ([], g')
      | (Some v, g') \<Rightarrow>
          (case drain nxt fuel g' of
             None \<Rightarrow> None
           | Some (vs, g'') \<Rightarrow> Some (v # vs, g'')))"

text \<open>
  The same consumer applied to the source itself: up to \<open>k\<close> calls of \<^verbatim>\<open>__next__\<close>,
  stopping at the first \<^verbatim>\<open>StopIteration\<close>. The result holds the items, the state the
  source is left in, and the number of calls made.
\<close>

fun source_next_n :: "('a, 's) iterator \<Rightarrow> nat \<Rightarrow> 's \<Rightarrow> 'a list \<times> 's \<times> nat" where
  "source_next_n nxt 0 s = ([], s, 0)"
| "source_next_n nxt (Suc k) s =
     (case nxt s of
        None \<Rightarrow> ([], s, 1)
      | Some (v, s') \<Rightarrow>
          (case source_next_n nxt k s' of (vs, s'', c) \<Rightarrow> (v # vs, s'', Suc c)))"

section \<open>The builder as the specification words it\<close>

text \<open>
  The specification describes the builder as a table: ten criteria, each standing for one
  filter class with one comparator. A criterion that is present yields its filter, an
  absent one yields none, and nothing else is returned.
\<close>

definition criteria_table ::
  "pyval \<Rightarrow> pyval \<Rightarrow> pyval \<Rightarrow> pyval \<Rightarrow> pyval \<Rightarrow> pyval \<Rightarrow> pyval \<Rightarrow> pyval \<Rightarrow> pyval \<Rightarrow> pyval
     \<Rightarrow> ((pyval \<Rightarrow> attribute_filter) \<times> pyval) list" where
  "criteria_table =
     (\<lambda>date start_date end_date distance_min distance_max
       velocity_min velocity_max diameter_min diameter_max hazardous.
      [(DateFilter operator_eq, date),
       (DateFilter operator_ge, start_date),
       (DateFilter operator_le, end_date),
       (DistanceFilter operator_ge, distance_min),
       (DistanceFilter operator_le, distance_max),
       (VelocityFilter operator_ge, velocity_min),
       (VelocityFilter operator_le, velocity_max),
       (DiameterFilter operator_ge, diameter_min),
       (DiameterFilter operator_le, diameter_max),
       (HazardousFilter operator_eq, hazardous)])"

definition create_filters_spec ::
  "pyval \<Rightarrow> pyval \<Rightarrow> pyval \<Rightarrow> pyval \<Rightarrow> pyval \<Rightarrow> pyval \<Rightarrow> pyval \<Rightarrow> pyval \<Rightarrow> pyval \<Rightarrow> pyval
     \<Rightarrow> attribute_filter list" where
  "create_filters_spec =
     (\<lambda>date start_date end_date distance_min distance_max
       velocity_min velocity_max diameter_min diameter_max hazardous.
      map (\<lambda>(make, v). make v)
        (filter (\<lambda>(make, v). v \<noteq> PyNone)
          (criteria_table date start_date end_date distance_min distance_max
             velocity_min velocity_max diameter_min diameter_max hazardous)))"

section \<open>Example data\<close>

text \<open>
  The scenarios of the specification: a hazardous object \<open>A\<close> and a harmless object \<open>B\<close>
  whose diameter is unknown, and close approaches at noon of a day of January 2020.
\<close>

definition neo_A :: near_earth_object where
  "neo_A = \<lparr>designation = ''A'', name = None, diameter = Some (Finite 1), hazardous = True\<rparr>"

definition neo_B :: near_earth_object where
  "neo_B =
     \<lparr>designation = ''B'', name = None, diameter = unknown_diameter, hazardous = False\<rparr>"

definition noon :: "int \<Rightarrow> datetime" where
  "noon d = \<lparr>year = 2020, month = 1, day = d, hour = 12, minute = 0, second = 0,
             microsecond = 0\<rparr>"

definition approach_on :: "int \<Rightarrow> pyfloat \<Rightarrow> near_earth_object \<Rightarrow> close_approach" where
  "approach_on d au object = \<lparr>time = noon d, distance = au, velocity = Finite 10, neo = object\<rparr>"

section \<open>Evaluating filters\<close>

lemma apply_op_not_unsupported: "apply_op c a b \<noteq> Inl UnsupportedCriterionError"
  by (cases c) (auto simp: py_lt_def py_le_def split: option.splits pyval.splits)

lemma call_unsupported_iff:
  "call f approach = Inl UnsupportedCriterionError \<longleftrightarrow> (\<exists>c v. f = AttributeFilter c v)"
  by (cases f) (simp_all add: call_def apply_op_not_unsupported)

lemma call_hazardous_eq:
  "call (HazardousFilter operator_eq (PyBool b)) approach = Inr (hazardous (neo approach) = b)"
  by (simp add: call_def py_eq_def)

text \<open>
  A diameter that is not-a-number is a float: every ordering against a number is false.
  An attribute that is \<^verbatim>\<open>None\<close> is not ordered against anything: the comparison raises.
\<close>

lemma diameter_nan_false:
  "diameter (neo approach) = Some NaN \<Longrightarrow> as_number v \<noteq> None \<Longrightarrow>
   call (DiameterFilter operator_ge v) approach = Inr False
   \<and> call (DiameterFilter operator_le v) approach = Inr False"
  by (cases "the (as_number v)") (auto simp: call_def py_le_def float_le_def split: option.splits)

lemma diameter_none_raises:
  "diameter (neo approach) = None \<Longrightarrow>
   call (DiameterFilter operator_ge v) approach = Inl TypeError
   \<and> call (DiameterFilter operator_le v) approach = Inl TypeError"
  by (auto simp: call_def py_le_def split: option.splits pyval.splits)

section \<open>The builder\<close>

lemma create_filters_append:
  "create_filters d sd ed dmin dmax vmin vmax dimin dimax hz =
     (if d \<noteq> PyNone then [DateFilter operator_eq d] else [])
   @ (if sd \<noteq> PyNone then [DateFilter operator_ge sd] else [])
   @ (if ed \<noteq> PyNone then [DateFilter operator_le ed] else [])
   @ (if dmin \<noteq> PyNone then [DistanceFilter operator_ge dmin] else [])
   @ (if dmax \<noteq> PyNone then [DistanceFilter operator_le dmax] else [])
   @ (if vmin \<noteq> PyNone then [VelocityFilter operator_ge vmin] else [])
   @ (if vmax \<noteq> PyNone then [VelocityFilter operator_le vmax] else [])
   @ (if dimin \<noteq> PyNone then [DiameterFilter operator_ge dimin] else [])
   @ (if dimax \<noteq> PyNone then [DiameterFilter operator_le dimax] else [])
   @ (if hz \<noteq> PyNone then [HazardousFilter operator_eq hz] else [])"
  by (simp add: create_filters_def)

lemma create_filters_concrete:
  "f \<in> set (create_filters d sd ed dmin dmax vmin vmax dimin dimax hz) \<Longrightarrow>
   \<not> (\<exists>c v. f = AttributeFilter c v)"
  by (auto simp: create_filters_append split: if_splits)

lemma create_filters_hazardous:
  "hz \<noteq> PyNone \<Longrightarrow>
   create_filters d sd ed dmin dmax vmin vmax dimin dimax hz =
   create_filters d sd ed dmin dmax vmin vmax dimin dimax PyNone
     @ [HazardousFilter operator_eq hz]"
  by (simp add: create_filters_append)

lemma create_filters_no_hazardous:
  "f \<in> set (create_filters d sd ed dmin dmax vmin vmax dimin dimax PyNone) \<Longrightarrow>
   \<not> (\<exists>c v. f = HazardousFilter c v)"
  by (auto simp: create_filters_append split: if_splits)

text \<open>
  C2: whatever the ten criteria are, \<open>create_filters\<close> returns what the table of the
  specification prescribes: for each criterion that is not \<open>None\<close>, in the order of the
  parameters, one filter of the class of that criterion with its comparator (equality for
  the exact date and the hazardous flag, greater-or-equal for the start date and the
  minima, less-or-equal for the end date and the maxima) and the criterion as reference
  value; nothing for a criterion that is \<open>None\<close>; and nothing else. So there are as many
  filters as criteria that are not \<open>None\<close>.
\<close>

theorem create_filters_one_per_criterion:
  "create_filters d sd ed dmin dmax vmin vmax dimin dimax hz =
     create_filters_spec d sd ed dmin dmax vmin vmax dimin dimax hz
   \<and> length (create_filters d sd ed dmin dmax vmin vmax dimin dimax hz) =
     length (filter (\<lambda>v. v \<noteq> PyNone) [d, sd, ed, dmin, dmax, vmin, vmax, dimin, dimax, hz])"
  by (simp add: create_filters_append create_filters_spec_def criteria_table_def)

section \<open>The query\<close>

lemma matches_no_error:
  "\<forall>f\<in>set fs. \<exists>b. call f approach = Inr b \<Longrightarrow>
   matches fs approach = Inr (\<forall>f\<in>set fs. call f approach = Inr True)"
  by (induction fs) auto

lemma query_no_error:
  "\<forall>a\<in>set approaches. \<forall>f\<in>set fs. \<exists>b. call f a = Inr b \<Longrightarrow>
   query approaches fs = Inr (filter (\<lambda>a. \<forall>f\<in>set fs. call f a = Inr True) approaches)"
  by (induction approaches) (simp_all add: matches_no_error)

lemma matches_result:
  "matches fs approach = Inr b \<Longrightarrow> b = (\<forall>f\<in>set fs. call f approach = Inr True)"
proof (induction fs arbitrary: b)
  case Nil
  then show ?case by simp
next
  case (Cons f fs)
  then show ?case by (auto split: sum.splits if_splits)
qed

lemma query_result:
  "query approaches fs = Inr R \<Longrightarrow>
   R = filter (\<lambda>a. \<forall>f\<in>set fs. call f a = Inr True) approaches"
proof (induction approaches arbitrary: R)
  case Nil
  then show ?case by simp
next
  case (Cons a approaches)
  from Cons.prems obtain b rest where
    m: "matches fs a = Inr b" and q: "query approaches fs = Inr rest" and
    R: "R = (if b then a # rest else rest)"
    by (auto split: sum.splits)
  have "b = (\<forall>f\<in>set fs. call f a = Inr True)"
    by (rule matches_result [OF m])
  moreover have "rest = filter (\<lambda>a. \<forall>f\<in>set fs. call f a = Inr True) approaches"
    by (rule Cons.IH [OF q])
  ultimately show ?case using R by simp
qed

lemma query_no_filters: "query A [] = Inr A"
  by (induction A) simp_all

lemma matches_append:
  "matches (fs @ gs) approach =
     (case matches fs approach of
        Inl e \<Rightarrow> Inl e
      | Inr b \<Rightarrow> if b then matches gs approach else Inr False)"
  by (induction fs) (auto split: sum.splits)

lemma query_append_hazardous:
  "query A (fs @ [HazardousFilter operator_eq (PyBool b)]) =
     (case query A fs of
        Inl e \<Rightarrow> Inl e
      | Inr R \<Rightarrow> Inr (filter (\<lambda>a. hazardous (neo a) = b) R))"
  by (induction A) (auto simp: matches_append call_hazardous_eq split: sum.splits)

text \<open>
  C1: for every collection \<open>A\<close> of close approaches and every collection \<open>F\<close> of filters,
  what \<open>query A F\<close> yields is exactly the approaches of \<open>A\<close> on which every filter of \<open>F\<close>
  evaluates true, in the order of \<open>A\<close>, each as often as it occurs in \<open>A\<close>; it does yield
  them whenever the filters of \<open>F\<close> evaluate to a boolean on the approaches of \<open>A\<close>; and
  \<open>query A []\<close> yields \<open>A\<close> itself.
\<close>

theorem query_all_filters:
  "(\<forall>R. query A F = Inr R \<longrightarrow> R = filter (\<lambda>a. \<forall>f\<in>set F. call f a = Inr True) A)
   \<and> ((\<forall>a\<in>set A. \<forall>f\<in>set F. \<exists>b. call f a = Inr b) \<longrightarrow>
      query A F = Inr (filter (\<lambda>a. \<forall>f\<in>set F. call f a = Inr True) A))
   \<and> query A [] = Inr A"
  using query_no_error query_no_filters query_result by blast

theorem query_all_filters_witness:
  "query [approach_on 1 (Finite (1/10)) neo_A, approach_on 2 (Finite (3/10)) neo_B,
          approach_on 3 (Finite (5/10)) neo_A]
     [DistanceFilter operator_le (PyFloat (Finite (3/10)))] =
   Inr [approach_on 1 (Finite (1/10)) neo_A, approach_on 2 (Finite (3/10)) neo_B]"
  using query_all_filters
    [of "[approach_on 1 (Finite (1/10)) neo_A, approach_on 2 (Finite (3/10)) neo_B,
          approach_on 3 (Finite (5/10)) neo_A]"
        "[DistanceFilter operator_le (PyFloat (Finite (3/10)))]"]
  by (simp add: call_def py_le_def float_le_def approach_on_def)

text \<open>
  C6: the builder tells \<open>hazardous=False\<close> from \<open>hazardous=None\<close>. Whatever the other
  nine criteria are, with \<open>hazardous=False\<close> it returns the filters it returns with
  \<open>hazardous=None\<close> followed by one hazardous filter with equality and \<open>False\<close>, and with
  \<open>hazardous=None\<close> it returns no hazardous filter. So the query with \<open>hazardous=False\<close>
  keeps, of what the query with \<open>hazardous=None\<close> yields, exactly the approaches whose
  object is not hazardous; with no other criterion it keeps exactly the approaches of the
  collection whose object is not hazardous, where \<open>hazardous=None\<close> keeps them all.
\<close>

theorem hazardous_false_vs_none:
  "create_filters d sd ed dmin dmax vmin vmax dimin dimax (PyBool False) =
     create_filters d sd ed dmin dmax vmin vmax dimin dimax PyNone
       @ [HazardousFilter operator_eq (PyBool False)]
   \<and> (\<forall>f\<in>set (create_filters d sd ed dmin dmax vmin vmax dimin dimax PyNone).
         \<not> (\<exists>c v. f = HazardousFilter c v))
   \<and> query A (create_filters d sd ed dmin dmax vmin vmax dimin dimax (PyBool False)) =
       (case query A (create_filters d sd ed dmin dmax vmin vmax dimin dimax PyNone) of
          Inl e \<Rightarrow> Inl e
        | Inr R \<Rightarrow> Inr (filter (\<lambda>a. hazardous (neo a) = False) R))
   \<and> query A (create_filters PyNone PyNone PyNone PyNone PyNone PyNone PyNone PyNone PyNone
         (PyBool False)) = Inr (filter (\<lambda>a. hazardous (neo a) = False) A)
   \<and> query A (create_filters PyNone PyNone PyNone PyNone PyNone PyNone PyNone PyNone PyNone
         PyNone) = Inr A"
proof (intro conjI)
  show app: "create_filters d sd ed dmin dmax vmin vmax dimin dimax (PyBool False) =
     create_filters d sd ed dmin dmax vmin vmax dimin dimax PyNone
       @ [HazardousFilter operator_eq (PyBool False)]"
    by (rule create_filters_hazardous) simp
  show "\<forall>f\<in>set (create_filters d sd ed dmin dmax vmin vmax dimin dimax PyNone).
         \<not> (\<exists>c v. f = HazardousFilter c v)"
    using create_filters_no_hazardous by blast
  show "query A (create_filters d sd ed dmin dmax vmin vmax dimin dimax (PyBool False)) =
       (case query A (create_filters d sd ed dmin dmax vmin vmax dimin dimax PyNone) of
          Inl e \<Rightarrow> Inl e
        | Inr R \<Rightarrow> Inr (filter (\<lambda>a. hazardous (neo a) = False) R))"
    unfolding app by (rule query_append_hazardous)
  have none: "create_filters PyNone PyNone PyNone PyNone PyNone PyNone PyNone PyNone PyNone
         PyNone = []"
    by (simp add: create_filters_append)
  show "query A (create_filters PyNone PyNone PyNone PyNone PyNone PyNone PyNone PyNone PyNone
         PyNone) = Inr A"
    unfolding none by (rule query_no_filters)
  have "create_filters PyNone PyNone PyNone PyNone PyNone PyNone PyNone PyNone PyNone
         (PyBool False) = [] @ [HazardousFilter operator_eq (PyBool False)]"
    by (simp add: create_filters_append)
  then show "query A (create_filters PyNone PyNone PyNone PyNone PyNone PyNone PyNone PyNone
         PyNone (PyBool False)) = Inr (filter (\<lambda>a. hazardous (neo a) = False) A)"
    by (simp only: query_append_hazardous query_no_filters sum.case)
qed

theorem hazardous_false_vs_none_witness:
  "query [approach_on 1 (Finite (1/10)) neo_A, approach_on 2 (Finite (3/10)) neo_B]
     (create_filters PyNone PyNone PyNone PyNone (PyFloat (Finite (3/10))) PyNone PyNone
        PyNone PyNone (PyBool False)) =
   Inr [approach_on 2 (Finite (3/10)) neo_B]
   \<and> query [approach_on 1 (Finite (1/10)) neo_A, approach_on 2 (Finite (3/10)) neo_B]
     (create_filters PyNone PyNone PyNone PyNone (PyFloat (Finite (3/10))) PyNone PyNone
        PyNone PyNone PyNone) =
   Inr [approach_on 1 (Finite (1/10)) neo_A, approach_on 2 (Finite (3/10)) neo_B]
   \<and> create_filters PyNone PyNone PyNone PyNone (PyFloat (Finite (3/10))) PyNone PyNone
        PyNone PyNone PyNone = [DistanceFilter operator_le (PyFloat (Finite (3/10)))]"
  using hazardous_false_vs_none
    [of PyNone PyNone PyNone PyNone "PyFloat (Finite (3/10))" PyNone PyNone PyNone PyNone
        "[approach_on 1 (Finite (1/10)) neo_A, approach_on 2 (Finite (3/10)) neo_B]"]
  by (simp add: create_filters_append call_def py_le_def float_le_def approach_on_def
      neo_A_def neo_B_def)

text \<open>
  C7: the filter that the builder makes of the criterion \<open>date = D\<close> is the date filter with
  equality. On any approach it evaluates to whether the calendar date of the timestamp is
  \<open>D\<close>, and to nothing else: the time of day is not compared. So it is true on an approach
  at any hour, minute, second and microsecond of the day \<open>D\<close>, and false on every approach
  of another day.
\<close>

theorem date_filter_ignores_time_of_day:
  "create_filters (PyDate D) PyNone PyNone PyNone PyNone PyNone PyNone PyNone PyNone PyNone =
     [DateFilter operator_eq (PyDate D)]
   \<and> call (DateFilter operator_eq (PyDate D)) approach = Inr (date_of (time approach) = D)
   \<and> call (DateFilter operator_eq (PyDate D))
       (approach\<lparr>time := \<lparr>year = year D, month = month D, day = day D,
                            hour = h, minute = m, second = s, microsecond = u\<rparr>\<rparr>) = Inr True"
  by (simp add: create_filters_append call_def py_eq_def date_of_def)

theorem date_filter_ignores_time_of_day_witness:
  "hour (time (approach_on 1 (Finite (1/10)) neo_A)) = 12
   \<and> call (DateFilter operator_eq (PyDate \<lparr>year = 2020, month = 1, day = 1\<rparr>))
       (approach_on 1 (Finite (1/10)) neo_A) = Inr True
   \<and> call (DateFilter operator_eq (PyDate \<lparr>year = 2020, month = 1, day = 1\<rparr>))
       (approach_on 2 (Finite (1/10)) neo_A) = Inr False"
  using date_filter_ignores_time_of_day
    [of "\<lparr>year = 2020, month = 1, day = 1\<rparr>" "approach_on 1 (Finite (1/10)) neo_A"]
    date_filter_ignores_time_of_day
    [of "\<lparr>year = 2020, month = 1, day = 1\<rparr>" "approach_on 2 (Finite (1/10)) neo_A"]
  by (simp add: approach_on_def noon_def date_of_def)

text \<open>
  C8: on every approach of an object whose diameter is unknown, and for every numeric
  bound, the filter that the builder makes of \<open>diameter_min\<close> (greater-or-equal) and the
  one it makes of \<open>diameter_max\<close> (less-or-equal) evaluate to false and raise nothing; so
  does the filter of \<open>diameter_min = 0.5\<close>. The filters do compare: on an object of known
  diameter \<open>x\<close> the bound \<open>y\<close> is satisfied exactly when \<open>y \<le> x\<close>, respectively \<open>x \<le> y\<close>.
\<close>

theorem diameter_filter_unknown_false:
  "diameter (neo approach) = unknown_diameter \<Longrightarrow> as_number v = Some b \<Longrightarrow>
   create_filters PyNone PyNone PyNone PyNone PyNone PyNone PyNone v PyNone PyNone =
     [DiameterFilter operator_ge v]
   \<and> create_filters PyNone PyNone PyNone PyNone PyNone PyNone PyNone PyNone v PyNone =
     [DiameterFilter operator_le v]
   \<and> call (DiameterFilter operator_ge v) approach = Inr False
   \<and> call (DiameterFilter operator_le v) approach = Inr False
   \<and> call (DiameterFilter operator_ge (PyFloat (Finite (1/2)))) approach = Inr False
   \<and> call (DiameterFilter operator_ge (PyFloat (Finite y)))
       (approach\<lparr>neo := (neo approach)\<lparr>diameter := Some (Finite x)\<rparr>\<rparr>) = Inr (y \<le> x)
   \<and> call (DiameterFilter operator_le (PyFloat (Finite y)))
       (approach\<lparr>neo := (neo approach)\<lparr>diameter := Some (Finite x)\<rparr>\<rparr>) = Inr (x \<le> y)"
proof -
  assume d: "diameter (neo approach) = unknown_diameter" and v: "as_number v = Some b"
  from v have "v \<noteq> PyNone" by auto
  then have builder:
    "create_filters PyNone PyNone PyNone PyNone PyNone PyNone PyNone v PyNone PyNone =
       [DiameterFilter operator_ge v]"
    "create_filters PyNone PyNone PyNone PyNone PyNone PyNone PyNone PyNone v PyNone =
       [DiameterFilter operator_le v]"
    by (simp_all add: create_filters_append)
  have nan: "call (DiameterFilter operator_ge w) approach = Inr False
        \<and> call (DiameterFilter operator_le w) approach = Inr False"
    if "as_number w = Some c" for w c
    using d that by (cases c) (simp_all add: unknown_diameter_def call_def py_le_def float_le_def)
  have known:
    "call (DiameterFilter operator_ge (PyFloat (Finite y)))
       (approach\<lparr>neo := (neo approach)\<lparr>diameter := Some (Finite x)\<rparr>\<rparr>) = Inr (y \<le> x)"
    "call (DiameterFilter operator_le (PyFloat (Finite y)))
       (approach\<lparr>neo := (neo approach)\<lparr>diameter := Some (Finite x)\<rparr>\<rparr>) = Inr (x \<le> y)"
    by (auto simp: call_def py_le_def float_le_def)
  show ?thesis
    using builder nan [OF v] nan [of "PyFloat (Finite (1/2))" "Finite (1/2)"] known by simp
qed

theorem diameter_filter_unknown_false_witness:
  "diameter (neo (approach_on 2 (Finite (3/10)) neo_B)) = unknown_diameter
   \<and> as_number (PyFloat (Finite (1/2))) = Some (Finite (1/2))
   \<and> call (DiameterFilter operator_ge (PyFloat (Finite (1/2))))
       (approach_on 2 (Finite (3/10)) neo_B) = Inr False
   \<and> call (DiameterFilter operator_le (PyFloat (Finite (1/2))))
       (approach_on 2 (Finite (3/10)) neo_B) = Inr False
   \<and> call (DiameterFilter operator_ge (PyFloat (Finite (1/2))))
       (approach_on 1 (Finite (1/10)) neo_A) = Inr True"
  using diameter_filter_unknown_false
    [of "approach_on 2 (Finite (3/10)) neo_B" "PyFloat (Finite (1/2))" "Finite (1/2)"]
  by (simp add: approach_on_def neo_B_def neo_A_def call_def py_le_def float_le_def)

text \<open>
  C9: evaluating a filter on an approach raises \<open>UnsupportedCriterionError\<close> if and only if
  the filter is an object of the base class \<open>AttributeFilter\<close>, whose \<open>get\<close> is the
  abstract one; the error is the result of the call. Whatever its arguments are,
  \<open>create_filters\<close> returns no filter that raises it on any approach.
\<close>

theorem unsupported_criterion:
  "(call f approach = Inl UnsupportedCriterionError \<longleftrightarrow> (\<exists>c v. f = AttributeFilter c v))
   \<and> (\<forall>g\<in>set (create_filters d sd ed dmin dmax vmin vmax dimin dimax hz).
         call g approach \<noteq> Inl UnsupportedCriterionError)"
  using call_unsupported_iff create_filters_concrete by blast

theorem unsupported_criterion_witness:
  "call (AttributeFilter operator_le (PyFloat (Finite (3/10))))
     (approach_on 1 (Finite (1/10)) neo_A) = Inl UnsupportedCriterionError
   \<and> create_filters PyNone PyNone PyNone PyNone (PyFloat (Finite (3/10))) PyNone PyNone
        PyNone PyNone PyNone = [DistanceFilter operator_le (PyFloat (Finite (3/10)))]
   \<and> call (DistanceFilter operator_le (PyFloat (Finite (3/10))))
       (approach_on 1 (Finite (1/10)) neo_A) = Inr True"
  using unsupported_criterion
    [of "AttributeFilter operator_le (PyFloat (Finite (3/10)))"
        "approach_on 1 (Finite (1/10)) neo_A"
        PyNone PyNone PyNone PyNone "PyFloat (Finite (3/10))" PyNone PyNone PyNone PyNone
        PyNone]
  by (simp add: create_filters_append call_def py_le_def float_le_def approach_on_def)

section \<open>The generator \<open>limit\<close>\<close>

text \<open>The first call of \<^verbatim>\<open>__next__\<close> runs the test on \<open>n\<close> and enters one of the two loops.\<close>

lemma limit_next_created_none:
  "limit_next nxt \<lparr>position = Created None, source = s, pulls = p\<rparr> =
   limit_next nxt \<lparr>position = Delegating, source = s, pulls = p\<rparr>"
  by (simp add: limit_next_def delegate_def split: option.splits)

lemma limit_next_created_zero:
  "limit_next nxt \<lparr>position = Created (Some 0), source = s, pulls = p\<rparr> =
   limit_next nxt \<lparr>position = Delegating, source = s, pulls = p\<rparr>"
  by (simp add: limit_next_def delegate_def split: option.splits)

lemma limit_next_created_some:
  "n \<noteq> 0 \<Longrightarrow>
   limit_next nxt \<lparr>position = Created (Some n), source = s, pulls = p\<rparr> =
   limit_next nxt \<lparr>position = Enumerating 0 n, source = s, pulls = p\<rparr>"
  by (simp add: limit_next_def iterate_def split: option.splits)

lemma next_n_cong:
  "limit_next nxt g = limit_next nxt h \<Longrightarrow> 0 < k \<Longrightarrow> next_n nxt k g = next_n nxt k h"
  by (cases k) simp_all

lemma drain_cong:
  "limit_next nxt g = limit_next nxt h \<Longrightarrow> drain nxt fuel g = drain nxt fuel h"
  by (cases fuel) simp_all

subsection \<open>Passing through\<close>

lemma next_n_delegating:
  "next_n nxt k \<lparr>position = Delegating, source = s, pulls = p\<rparr> =
     (case source_next_n nxt k s of
        (vs, s', c) \<Rightarrow>
          (vs, \<lparr>position = (if length vs = c then Delegating else Returned),
                source = s', pulls = p + c\<rparr>))"
proof (induction k arbitrary: s p)
  case 0
  show ?case by simp
next
  case (Suc k)
  show ?case
  proof (cases "nxt s")
    case None
    then show ?thesis by (simp add: limit_next_def delegate_def)
  next
    case (Some vs)
    obtain v s' where vs: "vs = (v, s')" by (cases vs)
    show ?thesis
      using Some vs Suc.IH [of s' "p + 1"]
      by (simp add: limit_next_def delegate_def split: prod.splits)
  qed
qed

lemma drain_delegating_list:
  "length xs < fuel \<Longrightarrow>
   drain list_next fuel \<lparr>position = Delegating, source = xs, pulls = p\<rparr> =
     Some (xs, \<lparr>position = Returned, source = [], pulls = p + length xs + 1\<rparr>)"
proof (induction xs arbitrary: fuel p)
  case Nil
  then obtain f where "fuel = Suc f" by (cases fuel) auto
  then show ?case by (simp add: limit_next_def delegate_def list_next_def)
next
  case (Cons x xs)
  then obtain f where f: "fuel = Suc f" "length xs < f" by (cases fuel) auto
  show ?case
    using Cons.IH [OF f(2), of "p + 1"] f(1)
    by (simp add: limit_next_def delegate_def list_next_def)
qed

text \<open>
  C4: for every source iterator, finite or not, and every number \<open>k\<close> of requests, asking
  \<open>limit(S, None)\<close> for up to \<open>k\<close> items gives what asking \<open>S\<close> itself gives: the same items
  in the same order, the source left in the same state, and as many calls of the source's
  \<^verbatim>\<open>__next__\<close> as the direct consumer makes, so the source is pulled only when the
  consumer of the generator pulls.
\<close>

theorem limit_none_passthrough:
  "next_n nxt k (limit s None) =
     (case source_next_n nxt k s of
        (vs, s', c) \<Rightarrow>
          (vs, \<lparr>position = (if k = 0 then Created None
                             else if length vs = c then Delegating else Returned),
                source = s', pulls = c\<rparr>))"
proof (cases k)
  case 0
  then show ?thesis by (simp add: limit_def)
next
  case (Suc j)
  have "next_n nxt k (limit s None) =
        next_n nxt k \<lparr>position = Delegating, source = s, pulls = 0\<rparr>"
    unfolding limit_def by (rule next_n_cong) (simp_all add: limit_next_created_none Suc)
  then show ?thesis
    using Suc by (simp add: next_n_delegating split: prod.splits option.splits)
qed

subsection \<open>Counting\<close>

lemma drain_enumerating_list:
  "length xs < fuel \<Longrightarrow> i \<le> n \<Longrightarrow>
   drain list_next fuel \<lparr>position = Enumerating i n, source = xs, pulls = p\<rparr> =
     Some (take (nat (n - i)) xs,
           \<lparr>position = Returned, source = drop (Suc (nat (n - i))) xs,
            pulls = p + min (length xs) (nat (n - i)) + 1\<rparr>)"
proof (induction xs arbitrary: fuel i p)
  case Nil
  then obtain f where "fuel = Suc f" by (cases fuel) auto
  then show ?case by (simp add: limit_next_def iterate_def list_next_def)
next
  case (Cons x xs)
  then obtain f where f: "fuel = Suc f" "length xs < f" by (cases fuel) auto
  show ?case
  proof (cases "i = n")
    case True
    then show ?thesis using f(1) by (simp add: limit_next_def iterate_def list_next_def)
  next
    case False
    with Cons.prems have lt: "i < n" by simp
    then have le: "i + 1 \<le> n" by simp
    have nat_eq: "nat (n - i) = Suc (nat (n - (i + 1)))" using lt by simp
    show ?thesis
      using Cons.IH [OF f(2) le, of "p + 1"] f(1) lt
      by (simp add: limit_next_def iterate_def list_next_def nat_eq)
  qed
qed

text \<open>
  C3: for every \<open>N \<ge> 0\<close> and every finite sequence \<open>S\<close>, consuming \<open>limit(S, N)\<close> to its end
  ends (any fuel above the length of \<open>S\<close> suffices) and yields the first \<open>N\<close> items of \<open>S\<close>
  in order, which are \<open>min N (length S)\<close> items; except for \<open>N = 0\<close>, where it yields all of
  \<open>S\<close>.
\<close>

theorem limit_finite:
  assumes "0 \<le> N" and "length S < fuel"
  shows "map_option fst (drain list_next fuel (limit S (Some N))) =
           Some (if N = 0 then S else take (nat N) S)
         \<and> length (take (nat N) S) = min (nat N) (length S)"
proof (cases "N = 0")
  case True
  have "drain list_next fuel (limit S (Some N)) =
        drain list_next fuel \<lparr>position = Delegating, source = S, pulls = 0\<rparr>"
    unfolding limit_def True by (rule drain_cong) (rule limit_next_created_zero)
  then show ?thesis
    using True drain_delegating_list [OF assms(2), of 0] by simp
next
  case False
  have "drain list_next fuel (limit S (Some N)) =
        drain list_next fuel \<lparr>position = Enumerating 0 N, source = S, pulls = 0\<rparr>"
    unfolding limit_def by (rule drain_cong) (rule limit_next_created_some [OF False])
  then show ?thesis
    using False drain_enumerating_list [OF assms(2) assms(1), of 0] by simp
qed

theorem limit_finite_witness:
  "(0::int) \<le> 2 \<and> length [10, 20, 30 :: int] < 4
   \<and> map_option fst (drain list_next 4 (limit [10, 20, 30 :: int] (Some 2))) = Some [10, 20]
   \<and> length [10, 20 :: int] = min 2 3"
  using limit_finite [of 2 "[10, 20, 30 :: int]" 4]
  by simp

text \<open>
  Up to the \<open>N\<close>-th item the counting loop pulls the source once for each item it is asked
  for.
\<close>

lemma next_n_enumerating:
  "i + int k \<le> n \<Longrightarrow>
   next_n nxt k \<lparr>position = Enumerating i n, source = s, pulls = p\<rparr> =
     (case source_next_n nxt k s of
        (vs, s', c) \<Rightarrow>
          (vs, \<lparr>position = (if length vs = c then Enumerating (i + int c) n else Returned),
                source = s', pulls = p + c\<rparr>))"
proof (induction k arbitrary: i s p)
  case 0
  show ?case by simp
next
  case (Suc k)
  then have lt: "i < n" and le: "(i + 1) + int k \<le> n" by simp_all
  show ?case
  proof (cases "nxt s")
    case None
    then show ?thesis by (simp add: limit_next_def iterate_def)
  next
    case (Some vs)
    obtain v s' where vs: "vs = (v, s')" by (cases vs)
    show ?thesis
      using Some vs lt Suc.IH [OF le, of s' "p + 1"]
      by (simp add: limit_next_def iterate_def add.assoc split: prod.splits)
  qed
qed

lemma limit_first_n:
  assumes "k \<le> nat N"
  shows "next_n nxt k (limit s (Some N)) =
     (case source_next_n nxt k s of
        (vs, s', c) \<Rightarrow>
          (vs, \<lparr>position = (if k = 0 then Created (Some N)
                             else if length vs = c then Enumerating (int c) N else Returned),
                source = s', pulls = c\<rparr>))"
proof (cases k)
  case 0
  then show ?thesis by (simp add: limit_def)
next
  case (Suc j)
  with assms have N: "N \<noteq> 0" and le: "0 + int k \<le> N" by simp_all
  have k: "k \<noteq> 0" using Suc by simp
  have eq: "next_n nxt k (limit s (Some N)) =
        next_n nxt k \<lparr>position = Enumerating 0 N, source = s, pulls = 0\<rparr>"
    unfolding limit_def by (rule next_n_cong) (simp_all add: limit_next_created_some [OF N] Suc)
  show ?thesis
    unfolding eq next_n_enumerating [OF le] using k by (simp split: prod.splits)
qed

text \<open>
  After the \<open>N\<close>-th item the generator is suspended at its \<^verbatim>\<open>yield\<close> with \<open>i = N\<close> to come.
  The next request makes \<^verbatim>\<open>enumerate\<close> pull the source once more, and only then is
  \<open>i \<ge> n\<close> tested: the item pulled is dropped and the generator returns.
\<close>

lemma limit_after_n:
  "limit_next nxt \<lparr>position = Enumerating n n, source = s, pulls = p\<rparr> =
     (None, \<lparr>position = Returned,
             source = (case nxt s of None \<Rightarrow> s | Some (v, s') \<Rightarrow> s'),
             pulls = p + 1\<rparr>)"
  by (simp add: limit_next_def iterate_def split: option.splits)

text \<open>
  C5: once \<open>limit(S, N)\<close> has emitted its \<open>N\<close>-th item it should pull the source no more.
  With \<open>N = 2\<close> on the endless source \<open>0, 1, 2, \<dots>\<close> the first two items cost two pulls of
  the source, and the generator ends at the third request; but that request pulls the
  source a third time before the generator ends: the source is left at \<open>3\<close>, not at \<open>2\<close>.
  Likewise \<^verbatim>\<open>list(limit(iter([10, 20, 30]), 2))\<close> yields two items and leaves the source
  empty after three pulls.
\<close>

theorem limit_pulls_past_n:
  "next_n count_next 2 (limit 0 (Some 2)) =
     ([0, 1], \<lparr>position = Enumerating 2 2, source = 2, pulls = 2\<rparr>)
   \<and> limit_next count_next \<lparr>position = Enumerating 2 2, source = 2, pulls = 2\<rparr> =
     (None, \<lparr>position = Returned, source = 3, pulls = 3\<rparr>)
   \<and> drain list_next 4 (limit [10, 20, 30 :: int] (Some 2)) =
     Some ([10, 20], \<lparr>position = Returned, source = [], pulls = 3\<rparr>)"
  by (simp add: eval_nat_numeral limit_def limit_next_def iterate_def count_next_def
      list_next_def)

text \<open>
  C10: for every source and every negative \<open>n\<close>, \<open>limit(S, n)\<close> yields no item, however many
  are asked for, and calls \<^verbatim>\<open>__next__\<close> of the source at most once; consuming it to its
  end ends at the first request.
\<close>

theorem limit_negative:
  "n < 0 \<Longrightarrow>
   fst (next_n nxt k (limit s (Some n))) = []
   \<and> pulls (snd (next_n nxt k (limit s (Some n)))) \<le> 1
   \<and> (\<exists>g. drain nxt (Suc fuel) (limit s (Some n)) = Some ([], g) \<and> pulls g \<le> 1)"
  by (cases k) (auto simp: limit_def limit_next_def iterate_def split: option.splits)

theorem limit_negative_witness:
  "(-1::int) < 0
   \<and> next_n count_next 3 (limit 0 (Some (-1))) =
       ([], \<lparr>position = Returned, source = 1, pulls = 1\<rparr>)
   \<and> drain count_next 1 (limit 0 (Some (-1))) =
       Some ([], \<lparr>position = Returned, source = 1, pulls = 1\<rparr>)"
  using limit_negative [of "-1" count_next 3 0 0]
  by (simp add: eval_nat_numeral limit_def limit_next_def iterate_def count_next_def)

end
